theory Spec2Isabelle
  imports Main "HOL-Library.Multiset"
begin

section \<open>Strings\<close>

text \<open>
  A JavaScript string is modelled as a \<^typ>\<open>string\<close>, the list of its bytes in UTF-8.
  The source only ever compares against ASCII text (\<open>..\<close>, \<open>//\<close>, \<open>.\<close>, \<open>/\<close>, the
  extension lists), and no byte of a multi-byte UTF-8 sequence is an ASCII byte, so
  searching and splitting at these characters agrees with the code-unit view of the source.
\<close>

definition lower_char :: "char \<Rightarrow> char" where
  "lower_char c =
     (case map_of (zip ''ABCDEFGHIJKLMNOPQRSTUVWXYZ'' ''abcdefghijklmnopqrstuvwxyz'') c of
        Some d \<Rightarrow> d
      | None \<Rightarrow> c)"

text \<open>\<open>String.prototype.toLowerCase\<close>, on the ASCII letters.\<close>

definition toLowerCase :: "string \<Rightarrow> string" where
  "toLowerCase s = map lower_char s"

text \<open>\<open>String.prototype.startsWith\<close>.\<close>

definition startsWith :: "string \<Rightarrow> string \<Rightarrow> bool" where
  "startsWith s p = (take (length p) s = p)"

text \<open>\<open>String.prototype.endsWith\<close>.\<close>

definition endsWith :: "string \<Rightarrow> string \<Rightarrow> bool" where
  "endsWith s p = (length p \<le> length s \<and> drop (length s - length p) s = p)"

text \<open>\<open>String.prototype.includes\<close>: the argument occurs somewhere as a contiguous substring.\<close>

fun str_includes :: "string \<Rightarrow> string \<Rightarrow> bool" where
  "str_includes [] p = (p = [])"
| "str_includes (c # s) p = (startsWith (c # s) p \<or> str_includes s p)"

section \<open>The platform's path functions\<close>

text \<open>
  \<open>path.basename\<close> and \<open>path.extname\<close> belong to the Node.js standard library, not to
  the repository. They are modelled in their POSIX variant (the handler is deployed on
  Linux), where \<open>/\<close> is the only separator.

  \<open>path.basename(p)\<close> is the last component of \<open>p\<close>, trailing separators ignored.
\<close>

definition path_basename :: "string \<Rightarrow> string" where
  "path_basename p =
     rev (takeWhile (\<lambda>c. c \<noteq> CHR ''/'') (dropWhile (\<lambda>c. c = CHR ''/'') (rev p)))"

text \<open>
  \<open>path.extname(p)\<close> is the part of the last component from its last dot to its end; it is
  empty when the component has no dot, when its only dot is its first character, and when
  the component is \<open>..\<close>.
\<close>

definition path_extname :: "string \<Rightarrow> string" where
  "path_extname p =
     (let base = path_basename p;
          tail = takeWhile (\<lambda>c. c \<noteq> CHR ''.'') (rev base);
          stem = take (length base - length tail - 1) base
      in if CHR ''.'' \<notin> set base \<or> stem = [] \<or> base = ''..'' then []
         else CHR ''.'' # rev tail)"

section \<open>The safety filter\<close>

definition safeExtensions :: "string list" where
  "safeExtensions =
     [''.html'', ''.htm'', ''.css'', ''.js'', ''.json'', ''.txt'', ''.md'',
      ''.jpg'', ''.jpeg'', ''.png'', ''.gif'', ''.svg'', ''.ico'',
      ''.woff'', ''.woff2'', ''.ttf'', ''.eot'', ''.webp'']"

definition isSafeFile :: "string \<Rightarrow> bool" where
  "isSafeFile filePath =
     (let ext = toLowerCase (path_extname filePath) in
      if ext \<notin> set safeExtensions then False
      else if str_includes filePath ''..'' \<or> str_includes filePath ''//'' then False
      else let basename = path_basename filePath in
        if startsWith basename ''.'' \<and> basename \<noteq> ''.htaccess'' then False
        else True)"

section \<open>Data\<close>

text \<open>
  A client's quota record, as \<open>getQuotaInfo\<close> creates it. \<open>remaining\<close> and the
  timestamps (milliseconds) are integral JavaScript numbers; \<open>lastDeployment\<close> is \<open>null\<close>
  until the first successful deployment.
\<close>

record quota =
  remaining :: int
  lastReset :: string
  lastDeployment :: "int option"
  cooldownUntil :: int

text \<open>
  \<open>deploymentData\<close>, the process-wide \<open>Map\<close> from client identifier to record. The handler
  holds the record object it looked up and writes it back with \<open>saveQuotaInfo\<close>; requests
  are run one after another, each to completion, so the object and the stored record are
  only ever observed together and the store can be passed as a value.
\<close>

type_synonym store = "string \<rightharpoonup> quota"

text \<open>An entry of the decoded archive; \<open>getData\<close> holds the entry's bytes rendered in
  base64 (\<open>Inr\<close>), or the message of the error the decoder throws (\<open>Inl\<close>).\<close>

record zip_entry =
  entryName :: string
  isDirectory :: bool
  getData :: "string + string"

record upload_file =
  filepath :: string
  content :: string
  isBuffer :: bool

text \<open>
  The outcome of the call to the deployment provider: the response data's \<open>url\<close> and
  \<open>id\<close>; a response whose data is \<open>null\<close> or \<open>undefined\<close>; or the \<open>code\<close> and
  \<open>message\<close> of the error object of a failed call.
\<close>

datatype deploy_result =
  Deployed "string option" "string option"
| DeployedNoBody
| DeployError "string option" "string option"

text \<open>
  What one run of the handler reads from outside. \<open>Date.now()\<close> is read at several places,
  and each has its own reading: \<open>nowLookup\<close> in \<open>getQuotaInfo\<close>, \<open>nowCheck\<close> in the
  comparison with \<open>cooldownUntil\<close>, \<open>nowSecs\<close> in \<open>remainingSeconds\<close>, \<open>nowCharge\<close> for
  \<open>lastDeployment\<close> and \<open>nowCooldown\<close> for the new \<open>cooldownUntil\<close>. \<open>today\<close> is
  \<open>new Date().toDateString()\<close>, \<open>token\<close> is \<open>process.env.VERCEL_TOKEN\<close>, \<open>md5hex\<close> the MD5
  digest in hexadecimal, \<open>unzip\<close> the archive decoder applied to the payload (\<open>Inl\<close> is the
  message of the error it throws), and \<open>post\<close> the call to the deployment provider with the
  token, the name and the files.
\<close>

record env =
  today :: string
  nowLookup :: int
  nowCheck :: int
  nowSecs :: int
  nowCharge :: int
  nowCooldown :: int
  token :: "string option"
  md5hex :: "string \<Rightarrow> string"
  unzip :: "string \<Rightarrow> string + zip_entry list"
  post :: "string \<Rightarrow> string \<Rightarrow> (string \<times> string) list \<Rightarrow> deploy_result"

text \<open>
  The request: its method, the three fields of its JSON body (each a string, or missing)
  and the connection metadata \<open>getClientId\<close> reads.
\<close>

record request =
  httpMethod :: string
  name :: "string option"
  fileData :: "string option"
  fileName :: "string option"
  xForwardedFor :: "string option"
  remoteAddress :: "string option"
  userAgent :: "string option"

datatype jval = JStr string | JNum int | JBool bool | JUndefined

text \<open>\<open>res.status(n).end()\<close> and \<open>res.status(n).json({...})\<close>.\<close>

datatype response = End nat | Json nat "(string \<times> jval) list"

section \<open>Helper functions\<close>

text \<open>Truthiness of an optional string: missing and empty are falsy.\<close>

definition truthy :: "string option \<Rightarrow> bool" where
  "truthy v = (case v of None \<Rightarrow> False | Some x \<Rightarrow> x \<noteq> [])"

text \<open>\<open>v || d\<close> for an optional string \<open>v\<close>.\<close>

definition js_or :: "string option \<Rightarrow> string \<Rightarrow> string" where
  "js_or v d = (case v of None \<Rightarrow> d | Some x \<Rightarrow> if x = [] then d else x)"

definition getClientId :: "env \<Rightarrow> request \<Rightarrow> string" where
  "getClientId e req =
     (let ip = js_or (xForwardedFor req) (js_or (remoteAddress req) ''unknown'');
          agent = js_or (userAgent req) []
      in md5hex e (ip @ agent))"

text \<open>The record \<open>getQuotaInfo\<close> stores for a client it has not seen.\<close>

definition newQuota :: "string \<Rightarrow> quota" where
  "newQuota d = \<lparr>remaining = 50, lastReset = d, lastDeployment = None, cooldownUntil = 0\<rparr>"

text \<open>
  The test of the cleanup loop, \<open>now - (value.lastDeployment || now) > 24 * 60 * 60 * 1000\<close>;
  \<open>null\<close> and \<open>0\<close> are falsy.
\<close>

definition expired :: "int \<Rightarrow> quota \<Rightarrow> bool" where
  "expired now v =
     (now - (case lastDeployment v of None \<Rightarrow> now | Some t \<Rightarrow> if t = 0 then now else t)
        > 24 * 60 * 60 * 1000)"

text \<open>The cleanup loop: every record that passes the test is deleted.\<close>

definition cleanup :: "int \<Rightarrow> store \<Rightarrow> store" where
  "cleanup now s =
     (\<lambda>k. case s k of None \<Rightarrow> None | Some v \<Rightarrow> if expired now v then None else Some v)"

text \<open>
  \<open>getQuotaInfo\<close> returns the record object and leaves the store changed: the record is
  created if missing, reset if its date is not today's, and then the cleanup runs over the
  whole store, the client's own record included. The returned object keeps its values
  even when the cleanup has just removed it from the store.
\<close>

definition getQuotaInfo :: "env \<Rightarrow> string \<Rightarrow> store \<Rightarrow> quota \<times> store" where
  "getQuotaInfo e clientId s =
     (let now = nowLookup e;
          data0 = (case s clientId of None \<Rightarrow> newQuota (today e) | Some d \<Rightarrow> d);
          data = (if lastReset data0 \<noteq> today e
                  then data0\<lparr>remaining := 50, lastReset := today e, cooldownUntil := 0\<rparr>
                  else data0)
      in (data, cleanup now (s(clientId \<mapsto> data))))"

definition saveQuotaInfo :: "string \<Rightarrow> quota \<Rightarrow> store \<Rightarrow> store" where
  "saveQuotaInfo clientId info s = s(clientId \<mapsto> info)"

section \<open>The handler\<close>

text \<open>\<open>Math.ceil(ms / 1000)\<close> on an integral number of milliseconds.\<close>

definition ceilSeconds :: "int \<Rightarrow> int" where
  "ceilSeconds ms = - ((- ms) div 1000)"

text \<open>The test \<open>/^[a-z0-9-]+$/\<close>: non-empty, and every character in the class.\<close>

definition validName :: "string \<Rightarrow> bool" where
  "validName n =
     (n \<noteq> [] \<and> list_all (\<lambda>c. c \<in> set ''abcdefghijklmnopqrstuvwxyz0123456789-'') n)"

text \<open>The outermost \<open>catch\<close>: a thrown error becomes a 500 with its message appended.\<close>

definition serverError :: "string \<Rightarrow> response" where
  "serverError msg = Json 500 [(''error'', JStr (''Terjadi kesalahan server: '' @ msg))]"

text \<open>
  The loop over the archive's entries. A directory and an entry the safety filter refuses
  are skipped without their data being read; an entry that is kept is appended.
\<close>

fun extractEntries :: "zip_entry list \<Rightarrow> upload_file list \<Rightarrow> string + upload_file list" where
  "extractEntries [] files = Inr files"
| "extractEntries (entry # rest) files =
     (if \<not> isDirectory entry \<and> isSafeFile (entryName entry)
      then (case getData entry of
              Inl msg \<Rightarrow> Inl msg
            | Inr fileBuffer \<Rightarrow>
                extractEntries rest
                  (files @ [\<lparr>filepath = entryName entry, content = fileBuffer, isBuffer = False\<rparr>]))
      else extractEntries rest files)"

text \<open>
  The file processing of the handler: the archive branch, the single-file branch, and the
  rejection of any other file name. \<open>Inl\<close> is the response the handler returns at once.
\<close>

definition processFiles :: "env \<Rightarrow> string \<Rightarrow> string \<Rightarrow> response + upload_file list" where
  "processFiles e fName fData =
     (if endsWith (toLowerCase fName) ''.zip'' then
        (case unzip e fData of
           Inl msg \<Rightarrow> Inl (serverError msg)
         | Inr zipEntries \<Rightarrow>
             (case extractEntries zipEntries [] of
                Inl msg \<Rightarrow> Inl (serverError msg)
              | Inr files \<Rightarrow>
                  if \<not> list_ex (\<lambda>f. toLowerCase (filepath f) = ''index.html'') files
                  then Inl (Json 400 [(''error'', JStr ''ZIP harus ada index.html'')])
                  else Inr files))
      else if endsWith (toLowerCase fName) ''.html'' \<or> endsWith (toLowerCase fName) ''.htm'' then
        Inr [\<lparr>filepath = ''index.html'', content = fData, isBuffer = False\<rparr>]
      else Inl (Json 400 [(''error'', JStr ''Hanya file .html/.htm atau .zip'')]))"

text \<open>The test of the inner \<open>catch\<close> for a name that is already taken.\<close>

definition nameTaken :: "string option \<Rightarrow> string option \<Rightarrow> bool" where
  "nameTaken code msg =
     (code = Some ''name_already_exists'' \<or>
      (case msg of None \<Rightarrow> False | Some m \<Rightarrow> str_includes (toLowerCase m) ''already exists''))"

text \<open>
  The submission to the provider and the charge that follows it, for the admitted record
  \<open>quotaInfo\<close> of client \<open>clientId\<close>. When the response carries no data, the charge has
  been saved before \<open>deployment.url\<close> throws; the inner \<open>catch\<close> finds no error code or
  message in what was thrown and answers 500.
\<close>

definition submit ::
  "env \<Rightarrow> string \<Rightarrow> string \<Rightarrow> quota \<Rightarrow> upload_file list \<Rightarrow> store \<Rightarrow> response \<times> store" where
  "submit e nm clientId quotaInfo files s =
     (if \<not> truthy (token e) then
        (Json 500 [(''error'', JStr ''Token Vercel tidak ditemukan'')], s)
      else
        let vercelFiles = map (\<lambda>f. (filepath f, content f)) files in
        case post e (js_or (token e) []) nm vercelFiles of
          Deployed durl did \<Rightarrow>
            let q = quotaInfo\<lparr>remaining := remaining quotaInfo - 1,
                              lastDeployment := Some (nowCharge e),
                              cooldownUntil := nowCooldown e + 5 * 60 * 1000\<rparr>;
                url = (if truthy durl then ''https://'' @ js_or durl []
                       else ''https://'' @ nm @ ''.vercel.app'')
            in (Json 200 [(''success'', JBool True), (''url'', JStr url),
                          (''deploymentId'', (case did of None \<Rightarrow> JUndefined | Some i \<Rightarrow> JStr i)),
                          (''remainingQuota'', JNum (remaining q))],
                saveQuotaInfo clientId q s)
        | DeployedNoBody \<Rightarrow>
            let q = quotaInfo\<lparr>remaining := remaining quotaInfo - 1,
                              lastDeployment := Some (nowCharge e),
                              cooldownUntil := nowCooldown e + 5 * 60 * 1000\<rparr>
            in (Json 500 [(''error'', JStr ''Deployment gagal'')], saveQuotaInfo clientId q s)
        | DeployError code msg \<Rightarrow>
            if nameTaken code msg then
              let q = quotaInfo\<lparr>remaining := remaining quotaInfo - 1\<rparr>
              in (Json 400 [(''error'', JStr ''Nama sudah digunakan, coba nama lain''),
                            (''remainingQuota'', JNum (remaining q))],
                  saveQuotaInfo clientId q s)
            else (Json 500 [(''error'', JStr (js_or msg ''Deployment gagal''))], s))"

text \<open>The response of the quota-check path and of the cooldown rejection.\<close>

definition cooldownFields :: "env \<Rightarrow> quota \<Rightarrow> (string \<times> jval) list" where
  "cooldownFields e quotaInfo =
     [(''cooldown'', JBool True),
      (''remainingSeconds'', JNum (ceilSeconds (cooldownUntil quotaInfo - nowSecs e)))]"

text \<open>The exported request handler, from the method check to the response.\<close>

definition handler :: "env \<Rightarrow> request \<Rightarrow> store \<Rightarrow> response \<times> store" where
  "handler e req s =
     (if httpMethod req = ''OPTIONS'' then (End 200, s)
      else if httpMethod req \<noteq> ''POST'' then (Json 405 [(''error'', JStr ''Method not allowed'')], s)
      else if name req = Some ''quota-check'' then
        (case getQuotaInfo e (getClientId e req) s of
           (quotaInfo, s1) \<Rightarrow>
             (Json 200 ((''remainingQuota'', JNum (remaining quotaInfo)) #
                        (if cooldownUntil quotaInfo > nowCheck e
                         then cooldownFields e quotaInfo else [])),
              s1))
      else if \<not> truthy (name req) \<or> \<not> truthy (fileData req) \<or> \<not> truthy (fileName req) then
        (Json 400 [(''error'', JStr ''Data tidak lengkap'')], s)
      else if \<not> validName (js_or (name req) []) then
        (Json 400 [(''error'', JStr ''Nama hanya huruf kecil, angka, tanda hubung'')], s)
      else
        (case getQuotaInfo e (getClientId e req) s of
           (quotaInfo, s1) \<Rightarrow>
             if cooldownUntil quotaInfo > nowCheck e then
               (Json 429 ((''error'', JStr ''Cooldown aktif'') # cooldownFields e quotaInfo @
                          [(''remainingQuota'', JNum (remaining quotaInfo))]),
                s1)
             else if remaining quotaInfo \<le> 0 then
               (Json 429 [(''error'', JStr ''Quota habis''), (''remainingQuota'', JNum 0)], s1)
             else
               (case processFiles e (js_or (fileName req) []) (js_or (fileData req) []) of
                  Inl resp \<Rightarrow> (resp, s1)
                | Inr files \<Rightarrow>
                    submit e (js_or (name req) []) (getClientId e req) quotaInfo files s1)))"

text \<open>Requests are served one after another, each with its own readings of the outside.\<close>

fun serve :: "(env \<times> request) list \<Rightarrow> store \<Rightarrow> response list \<times> store" where
  "serve [] s = ([], s)"
| "serve ((e, req) # rest) s =
     (case handler e req s of
        (resp, s1) \<Rightarrow> (case serve rest s1 of (resps, s2) \<Rightarrow> (resp # resps, s2)))"

section \<open>Overlapping requests\<close>

text \<open>
  The handler is an \<open>async\<close> function. It runs without interruption from its start to
  \<open>await axios.post(...)\<close>, and, once the provider has answered, from there to its end; while
  it waits, other requests run. The records are objects: \<open>deploymentData\<close> holds references to
  them, \<open>getQuotaInfo\<close> hands out the reference, and the part of the handler after the
  \<open>await\<close> changes the object it was handed before it. So the memory is the objects by
  address, the next unused address, and the \<open>Map\<close> from client identifier to address.
\<close>

record memory =
  objects :: "nat \<Rightarrow> quota"
  nextObject :: nat
  deploymentData :: "string \<rightharpoonup> nat"

text \<open>The records as the \<open>Map\<close> shows them.\<close>

definition stored :: "memory \<Rightarrow> store" where
  "stored m = (\<lambda>k. case deploymentData m k of None \<Rightarrow> None | Some a \<Rightarrow> Some (objects m a))"

text \<open>
  \<open>getQuotaInfo\<close> on the memory: the address of the client's record object is returned. A
  missing record is a new object; the reset changes the object in place; the cleanup removes
  entries of the \<open>Map\<close> and leaves the objects alone.
\<close>

definition getQuotaInfoRef :: "env \<Rightarrow> string \<Rightarrow> memory \<Rightarrow> nat \<times> memory" where
  "getQuotaInfoRef e clientId m =
     (let now = nowLookup e;
          (a, m1) = (case deploymentData m clientId of
                       None \<Rightarrow>
                         (nextObject m,
                          m\<lparr>objects := (objects m)(nextObject m := newQuota (today e)),
                            nextObject := Suc (nextObject m),
                            deploymentData := (deploymentData m)(clientId \<mapsto> nextObject m)\<rparr>)
                     | Some b \<Rightarrow> (b, m));
          data = objects m1 a;
          m2 = (if lastReset data \<noteq> today e
                then m1\<lparr>objects := (objects m1)
                          (a := data\<lparr>remaining := 50, lastReset := today e, cooldownUntil := 0\<rparr>)\<rparr>
                else m1);
          m3 = m2\<lparr>deploymentData :=
                    (\<lambda>k. case deploymentData m2 k of
                           None \<Rightarrow> None
                         | Some b \<Rightarrow> if expired now (objects m2 b) then None else Some b)\<rparr>
      in (a, m3))"

text \<open>
  A call of the handler that waits at the \<open>await\<close>: its client, the address of its
  \<open>quotaInfo\<close>, the deployment name, and the answer the provider is going to give.
\<close>

record pending =
  pClient :: string
  pQuota :: nat
  pName :: string
  pResult :: deploy_result

text \<open>
  The handler from its start to the \<open>await\<close>: it ends with a response, or it has issued the
  call to the provider and waits.
\<close>

definition handlerStart :: "env \<Rightarrow> request \<Rightarrow> memory \<Rightarrow> (response + pending) \<times> memory" where
  "handlerStart e req m =
     (if httpMethod req = ''OPTIONS'' then (Inl (End 200), m)
      else if httpMethod req \<noteq> ''POST'' then
        (Inl (Json 405 [(''error'', JStr ''Method not allowed'')]), m)
      else if name req = Some ''quota-check'' then
        (case getQuotaInfoRef e (getClientId e req) m of
           (a, m1) \<Rightarrow>
             let quotaInfo = objects m1 a in
             (Inl (Json 200 ((''remainingQuota'', JNum (remaining quotaInfo)) #
                             (if cooldownUntil quotaInfo > nowCheck e
                              then cooldownFields e quotaInfo else []))),
              m1))
      else if \<not> truthy (name req) \<or> \<not> truthy (fileData req) \<or> \<not> truthy (fileName req) then
        (Inl (Json 400 [(''error'', JStr ''Data tidak lengkap'')]), m)
      else if \<not> validName (js_or (name req) []) then
        (Inl (Json 400 [(''error'', JStr ''Nama hanya huruf kecil, angka, tanda hubung'')]), m)
      else
        (case getQuotaInfoRef e (getClientId e req) m of
           (a, m1) \<Rightarrow>
             let quotaInfo = objects m1 a in
             if cooldownUntil quotaInfo > nowCheck e then
               (Inl (Json 429 ((''error'', JStr ''Cooldown aktif'') # cooldownFields e quotaInfo @
                               [(''remainingQuota'', JNum (remaining quotaInfo))])),
                m1)
             else if remaining quotaInfo \<le> 0 then
               (Inl (Json 429 [(''error'', JStr ''Quota habis''), (''remainingQuota'', JNum 0)]),
                m1)
             else
               (case processFiles e (js_or (fileName req) []) (js_or (fileData req) []) of
                  Inl resp \<Rightarrow> (Inl resp, m1)
                | Inr files \<Rightarrow>
                    if \<not> truthy (token e) then
                      (Inl (Json 500 [(''error'', JStr ''Token Vercel tidak ditemukan'')]), m1)
                    else
                      (Inr \<lparr>pClient = getClientId e req, pQuota = a,
                            pName = js_or (name req) [],
                            pResult = post e (js_or (token e) []) (js_or (name req) [])
                                        (map (\<lambda>f. (filepath f, content f)) files)\<rparr>,
                       m1))))"

text \<open>
  The handler from the \<open>await\<close> to its end, with the clock as it reads then. The charge
  changes the object the call holds, whatever it holds by now, and \<open>saveQuotaInfo\<close> puts
  the reference into the \<open>Map\<close>.
\<close>

definition handlerResume :: "env \<Rightarrow> pending \<Rightarrow> memory \<Rightarrow> response \<times> memory" where
  "handlerResume e p m =
     (let a = pQuota p; quotaInfo = objects m a in
      case pResult p of
        Deployed durl did \<Rightarrow>
          let q = quotaInfo\<lparr>remaining := remaining quotaInfo - 1,
                            lastDeployment := Some (nowCharge e),
                            cooldownUntil := nowCooldown e + 5 * 60 * 1000\<rparr>;
              url = (if truthy durl then ''https://'' @ js_or durl []
                     else ''https://'' @ pName p @ ''.vercel.app'')
          in (Json 200 [(''success'', JBool True), (''url'', JStr url),
                        (''deploymentId'', (case did of None \<Rightarrow> JUndefined | Some i \<Rightarrow> JStr i)),
                        (''remainingQuota'', JNum (remaining q))],
              m\<lparr>objects := (objects m)(a := q),
                deploymentData := (deploymentData m)(pClient p \<mapsto> a)\<rparr>)
      | DeployedNoBody \<Rightarrow>
          let q = quotaInfo\<lparr>remaining := remaining quotaInfo - 1,
                            lastDeployment := Some (nowCharge e),
                            cooldownUntil := nowCooldown e + 5 * 60 * 1000\<rparr>
          in (Json 500 [(''error'', JStr ''Deployment gagal'')],
              m\<lparr>objects := (objects m)(a := q),
                deploymentData := (deploymentData m)(pClient p \<mapsto> a)\<rparr>)
      | DeployError code msg \<Rightarrow>
          if nameTaken code msg then
            let q = quotaInfo\<lparr>remaining := remaining quotaInfo - 1\<rparr>
            in (Json 400 [(''error'', JStr ''Nama sudah digunakan, coba nama lain''),
                          (''remainingQuota'', JNum (remaining q))],
                m\<lparr>objects := (objects m)(a := q),
                  deploymentData := (deploymentData m)(pClient p \<mapsto> a)\<rparr>)
          else (Json 500 [(''error'', JStr (js_or msg ''Deployment gagal''))], m))"

text \<open>
  The server: the memory, the calls that wait, in the order in which they began to wait, and
  the responses given so far. An event is the arrival of a request, or the provider's answer
  to the \<open>k\<close>-th waiting call; an answer to a call that does not exist changes nothing.
\<close>

record server =
  mem :: memory
  suspended :: "pending list"
  answers :: "response list"

datatype event = Start env request | Resume env nat

fun step :: "event \<Rightarrow> server \<Rightarrow> server" where
  "step (Start e req) sv =
     (case handlerStart e req (mem sv) of
        (Inl resp, m) \<Rightarrow> sv\<lparr>mem := m, answers := answers sv @ [resp]\<rparr>
      | (Inr p, m) \<Rightarrow> sv\<lparr>mem := m, suspended := suspended sv @ [p]\<rparr>)"
| "step (Resume e k) sv =
     (if k < length (suspended sv) then
        (case handlerResume e (suspended sv ! k) (mem sv) of
           (resp, m) \<Rightarrow>
             sv\<lparr>mem := m,
                suspended := take k (suspended sv) @ drop (Suc k) (suspended sv),
                answers := answers sv @ [resp]\<rparr>)
      else sv)"

fun run :: "event list \<Rightarrow> server \<Rightarrow> server" where
  "run [] sv = sv"
| "run (ev # evs) sv = run evs (step ev sv)"

text \<open>The server when the module has been loaded: no record, nothing waiting.\<close>

definition startup :: server where
  "startup =
     \<lparr>mem = \<lparr>objects = (\<lambda>_. newQuota []), nextObject = 0, deploymentData = Map.empty\<rparr>,
      suspended = [], answers = []\<rparr>"

text \<open>
  No client has two calls in flight: a request arrives only when no call of its client
  waits.
\<close>

fun oneCallPerClient :: "event list \<Rightarrow> server \<Rightarrow> bool" where
  "oneCallPerClient [] sv = True"
| "oneCallPerClient (Start e req # evs) sv =
     (getClientId e req \<notin> set (map pClient (suspended sv)) \<and>
      oneCallPerClient evs (step (Start e req) sv))"
| "oneCallPerClient (Resume e k # evs) sv = oneCallPerClient evs (step (Resume e k) sv)"

section \<open>Properties of the store and sample inputs\<close>



text \<open>
  Sample inputs for the concrete runs below: an outside world in which every reading of the
  clock within one request gives \<open>t\<close>, the date string is \<open>d\<close> and the provider answers
  \<open>r\<close>; the digest is left abstract in the model, and the identity stands in for it here.
  The sample request is a single-page upload under the name \<open>n\<close>.
\<close>

definition sampleEnv :: "string \<Rightarrow> int \<Rightarrow> deploy_result \<Rightarrow> env" where
  "sampleEnv d t r =
     \<lparr>today = d, nowLookup = t, nowCheck = t, nowSecs = t, nowCharge = t, nowCooldown = t,
      token = Some ''secret'', md5hex = (\<lambda>x. x),
      unzip = (\<lambda>_. Inl ''Invalid or unsupported zip format''),
      post = (\<lambda>_ _ _. r)\<rparr>"

definition sampleRequest :: "string \<Rightarrow> request" where
  "sampleRequest n =
     \<lparr>httpMethod = ''POST'', name = Some n, fileData = Some ''PGgxPkhpPC9oMT4='',
      fileName = Some ''page.htm'', xForwardedFor = Some ''203.0.113.7'',
      remoteAddress = None, userAgent = Some ''curl/8.5.0''\<rparr>"

definition sampleClient :: string where
  "sampleClient = ''203.0.113.7curl/8.5.0''"

definition sampleStore :: "quota \<Rightarrow> store" where
  "sampleStore q = [sampleClient \<mapsto> q]"

definition sampleArchive :: "zip_entry list" where
  "sampleArchive =
     [\<lparr>entryName = ''assets/'', isDirectory = True, getData = Inr []\<rparr>,
      \<lparr>entryName = ''a.exe'', isDirectory = False, getData = Inr ''TVqQAAMAAAA=''\<rparr>,
      \<lparr>entryName = ''index.html'', isDirectory = False, getData = Inr ''PGgxPkhpPC9oMT4=''\<rparr>,
      \<lparr>entryName = ''../../etc/passwd'', isDirectory = False, getData = Inr ''cm9vdDp4OjA6MA==''\<rparr>]"

section \<open>The safety filter: substrings and dotfiles\<close>

lemma startsWith_append: "startsWith (p @ ss) p"
  by (simp add: startsWith_def)

lemma str_includes_append: "str_includes (ps @ p @ ss) p"
proof (induction ps)
  case Nil
  show ?case
  proof (cases "p @ ss")
    case Nil
    then show ?thesis by simp
  next
    case (Cons c cs)
    have "startsWith (p @ ss) p" by (rule startsWith_append)
    with Cons show ?thesis by simp
  qed
next
  case (Cons a ps)
  then show ?case by simp
qed


text \<open>
  C10. A path that contains the two characters \<open>..\<close> anywhere, whatever stands before and
  after them, is refused by the safety filter, also when no component of the path is \<open>..\<close>.
\<close>

theorem isSafeFile_rejects_dotdot: "isSafeFile (ps @ ''..'' @ ss) = False"
  using str_includes_append [of ps "''..''" ss] by (simp add: isSafeFile_def Let_def)

theorem isSafeFile_rejects_dotdot_witness: "isSafeFile ''a..b.css'' = False"
  using isSafeFile_rejects_dotdot [of "''a''" "''b.css''"] by simp

text \<open>
  A component that starts with a dot and has no further dot has no extension, so the
  extension check refuses \<open>.htaccess\<close> before the dotfile exception is reached; with it,
  every base name that starts with a dot is refused.
\<close>

lemma htaccess_no_ext: "path_basename p = ''.htaccess'' \<Longrightarrow> path_extname p = []"
  by (simp add: path_extname_def)

lemma htaccess_base_rejected: "path_basename p = ''.htaccess'' \<Longrightarrow> \<not> isSafeFile p"
  by (simp add: isSafeFile_def htaccess_no_ext toLowerCase_def safeExtensions_def)

lemma dot_base_rejected: "startsWith (path_basename p) ''.'' \<Longrightarrow> \<not> isSafeFile p"
  using htaccess_base_rejected [of p] by (auto simp add: isSafeFile_def Let_def)

text \<open>
  C1. The claim is that an entry whose base name is \<open>.htaccess\<close> is accepted. The filter
  returns false for \<open>.htaccess\<close>, at the archive root and inside a directory.
\<close>

theorem isSafeFile_htaccess:
  "isSafeFile ''.htaccess'' = False \<and> isSafeFile ''site/.htaccess'' = False"
  by (simp add: isSafeFile_def path_extname_def path_basename_def toLowerCase_def
      safeExtensions_def)

section \<open>The range of \<open>remaining\<close>\<close>









section \<open>Admission and charge\<close>

lemma js_or_Some: "x \<noteq> [] \<Longrightarrow> js_or (Some x) d = x"
  by (simp add: js_or_def)

lemma truthy_Some: "truthy (Some x) \<longleftrightarrow> x \<noteq> []"
  by (simp add: truthy_def)

text \<open>A well-formed deployment request runs the lookup, the two admission checks, the
  file processing and the submission, in this order.\<close>

lemma handler_deploy:
  assumes "httpMethod req = ''POST''" and "name req = Some n" and "n \<noteq> ''quota-check''"
    and "validName n" and "fileData req = Some fd" and "fd \<noteq> []"
    and "fileName req = Some fn" and "fn \<noteq> []"
    and "getQuotaInfo e (getClientId e req) s = (q, s1)"
  shows "handler e req s =
     (if cooldownUntil q > nowCheck e then
        (Json 429 ((''error'', JStr ''Cooldown aktif'') # cooldownFields e q @
                   [(''remainingQuota'', JNum (remaining q))]), s1)
      else if remaining q \<le> 0 then
        (Json 429 [(''error'', JStr ''Quota habis''), (''remainingQuota'', JNum 0)], s1)
      else (case processFiles e fn fd of
              Inl resp \<Rightarrow> (resp, s1)
            | Inr files \<Rightarrow> submit e n (getClientId e req) q files s1))"
proof -
  have n: "n \<noteq> []" using assms(4) by (simp add: validName_def)
  have j: "js_or (name req) [] = n" using assms(2) n by (simp add: js_or_Some)
  show ?thesis using assms n by (simp add: handler_def truthy_Some js_or_Some j split: sum.splits)
qed

text \<open>
  The lookup returns a record with \<open>remaining = 0\<close> exactly for a client whose stored record
  carries today's date and has \<open>remaining = 0\<close>.
\<close>

lemma lookup_zero_iff:
  "remaining (fst (getQuotaInfo e c s)) = 0 \<longleftrightarrow>
   (\<exists>r. s c = Some r \<and> lastReset r = today e \<and> remaining r = 0)"
  by (auto simp: getQuotaInfo_def Let_def newQuota_def split: option.splits)







text \<open>
  C5. After an admitted deployment request whose submission succeeds, the record stored for
  the client is the looked-up record with \<open>remaining\<close> one less, \<open>lastDeployment\<close> the
  reading of the clock at the charge, and \<open>cooldownUntil\<close> the reading of the clock plus
  five minutes. Admission asks only for \<open>remaining\<close> positive, so the cooldown is set
  also when the charge brings \<open>remaining\<close> to 0, as in the run that follows the theorem.
\<close>

theorem success_charged:
  assumes "httpMethod req = ''POST''" and "name req = Some n" and "n \<noteq> ''quota-check''"
    and "validName n" and "fileData req = Some fd" and "fd \<noteq> []"
    and "fileName req = Some fn" and "fn \<noteq> []"
    and "getQuotaInfo e (getClientId e req) s = (q, s1)"
    and "cooldownUntil q \<le> nowCheck e" and "0 < remaining q"
    and "processFiles e fn fd = Inr files"
    and "token e = Some tok" and "tok \<noteq> []"
    and "post e tok n (map (\<lambda>f. (filepath f, content f)) files) = Deployed durl did"
  shows "snd (handler e req s) =
           s1(getClientId e req \<mapsto>
                q\<lparr>remaining := remaining q - 1,
                  lastDeployment := Some (nowCharge e),
                  cooldownUntil := nowCooldown e + 5 * 60 * 1000\<rparr>)"
proof -
  have "snd (submit e n (getClientId e req) q files s1) =
           s1(getClientId e req \<mapsto>
                q\<lparr>remaining := remaining q - 1,
                  lastDeployment := Some (nowCharge e),
                  cooldownUntil := nowCooldown e + 5 * 60 * 1000\<rparr>)"
    using assms(13-15) by (simp add: submit_def truthy_Some js_or_Some saveQuotaInfo_def Let_def)
  then show ?thesis
    using handler_deploy [OF assms(1-9)] assms(10-12) by simp
qed

theorem success_charged_witness:
  "snd (handler (sampleEnv ''Tue Nov 03 2026'' 1793707260000 (Deployed None None))
          (sampleRequest ''my-site'')
          (sampleStore \<lparr>remaining = 1, lastReset = ''Tue Nov 03 2026'',
                         lastDeployment = Some 1793700000000, cooldownUntil = 1793700300000\<rparr>))
         sampleClient
     = Some \<lparr>remaining = 0, lastReset = ''Tue Nov 03 2026'',
              lastDeployment = Some 1793707260000, cooldownUntil = 1793707560000\<rparr>"
proof -
  let ?e = "sampleEnv ''Tue Nov 03 2026'' 1793707260000 (Deployed None None)"
  let ?req = "sampleRequest ''my-site''"
  let ?s = "sampleStore \<lparr>remaining = 1, lastReset = ''Tue Nov 03 2026'',
                         lastDeployment = Some 1793700000000, cooldownUntil = 1793700300000\<rparr>"
  let ?g = "getQuotaInfo ?e (getClientId ?e ?req) ?s"
  let ?file = "\<lparr>filepath = ''index.html'', content = ''PGgxPkhpPC9oMT4='', isBuffer = False\<rparr>"
  have h: "httpMethod ?req = ''POST''" "name ?req = Some ''my-site''"
    "''my-site'' \<noteq> ''quota-check''" "validName ''my-site''"
    "fileData ?req = Some ''PGgxPkhpPC9oMT4=''" "''PGgxPkhpPC9oMT4='' \<noteq> []"
    "fileName ?req = Some ''page.htm''" "''page.htm'' \<noteq> []"
    by (simp_all add: sampleRequest_def validName_def)
  have g: "?g = (fst ?g, snd ?g)" by simp
  have a: "cooldownUntil (fst ?g) \<le> nowCheck ?e" "0 < remaining (fst ?g)"
    by code_simp+
  have f: "processFiles ?e ''page.htm'' ''PGgxPkhpPC9oMT4='' = Inr [?file]"
    by code_simp
  have t: "token ?e = Some ''secret''" "''secret'' \<noteq> []"
    by (simp_all add: sampleEnv_def)
  have p: "post ?e ''secret'' ''my-site'' (map (\<lambda>f. (filepath f, content f)) [?file]) =
             Deployed None None"
    by (simp add: sampleEnv_def)
  have A: "snd (handler ?e ?req ?s) =
           (snd ?g)(getClientId ?e ?req \<mapsto>
                (fst ?g)\<lparr>remaining := remaining (fst ?g) - 1,
                  lastDeployment := Some (nowCharge ?e),
                  cooldownUntil := nowCooldown ?e + 5 * 60 * 1000\<rparr>)"
    by (rule success_charged [OF h g a f t p])
  have C: "((snd ?g)(getClientId ?e ?req \<mapsto>
                (fst ?g)\<lparr>remaining := remaining (fst ?g) - 1,
                  lastDeployment := Some (nowCharge ?e),
                  cooldownUntil := nowCooldown ?e + 5 * 60 * 1000\<rparr>)) sampleClient
     = Some \<lparr>remaining = 0, lastReset = ''Tue Nov 03 2026'',
              lastDeployment = Some 1793707260000, cooldownUntil = 1793707560000\<rparr>"
    by code_simp
  show ?thesis by (simp only: A C)
qed

section \<open>File processing\<close>

lemma endsWith_iff: "endsWith s p \<longleftrightarrow> (\<exists>a. s = a @ p)"
proof
  assume "endsWith s p"
  then have "s = take (length s - length p) s @ p"
    unfolding endsWith_def by (metis append_take_drop_id)
  then show "\<exists>a. s = a @ p" ..
next
  assume "\<exists>a. s = a @ p"
  then show "endsWith s p" by (auto simp: endsWith_def)
qed

lemma html_not_zip:
  assumes "endsWith s ''.html'' \<or> endsWith s ''.htm''"
  shows "\<not> endsWith s ''.zip''"
proof
  assume "endsWith s ''.zip''"
  then obtain a where "s = a @ ''.zip''" by (auto simp: endsWith_iff)
  then have z: "last s = CHR ''p''" by simp
  from assms obtain b where "s = b @ ''.html'' \<or> s = b @ ''.htm''"
    by (auto simp: endsWith_iff)
  then have "last s = CHR ''l'' \<or> last s = CHR ''m''" by auto
  with z show False by simp
qed

lemma processFiles_html:
  assumes "endsWith (toLowerCase fn) ''.html'' \<or> endsWith (toLowerCase fn) ''.htm''"
  shows "processFiles e fn fd = Inr [\<lparr>filepath = ''index.html'', content = fd, isBuffer = False\<rparr>]"
  using assms html_not_zip [OF assms] by (simp add: processFiles_def)

text \<open>
  C6. For an admitted upload whose file name ends in \<open>.html\<close> or \<open>.htm\<close>, in any letter
  case, the file set is the single file \<open>index.html\<close> whose content is the payload as it
  was received, and this is the file set the handler submits.
\<close>

theorem html_upload_single_file:
  assumes "httpMethod req = ''POST''" and "name req = Some n" and "n \<noteq> ''quota-check''"
    and "validName n" and "fileData req = Some fd" and "fd \<noteq> []"
    and "fileName req = Some fn" and "fn \<noteq> []"
    and "getQuotaInfo e (getClientId e req) s = (q, s1)"
    and "cooldownUntil q \<le> nowCheck e" and "0 < remaining q"
    and "endsWith (toLowerCase fn) ''.html'' \<or> endsWith (toLowerCase fn) ''.htm''"
  shows "processFiles e fn fd =
           Inr [\<lparr>filepath = ''index.html'', content = fd, isBuffer = False\<rparr>]
         \<and> handler e req s =
           submit e n (getClientId e req) q
             [\<lparr>filepath = ''index.html'', content = fd, isBuffer = False\<rparr>] s1"
  using handler_deploy [OF assms(1-9)] assms(10,11) processFiles_html [OF assms(12)]
  by simp

theorem html_upload_single_file_witness:
  "processFiles (sampleEnv ''Tue Nov 03 2026'' 1793707260000 (Deployed None None))
     ''page.htm'' ''PGgxPkhpPC9oMT4=''
     = Inr [\<lparr>filepath = ''index.html'', content = ''PGgxPkhpPC9oMT4='', isBuffer = False\<rparr>]
   \<and> fst (handler (sampleEnv ''Tue Nov 03 2026'' 1793707260000 (Deployed None None))
          (sampleRequest ''my-site'')
          (sampleStore \<lparr>remaining = 1, lastReset = ''Tue Nov 03 2026'',
                         lastDeployment = Some 1793700000000, cooldownUntil = 1793700300000\<rparr>))
     = Json 200 [(''success'', JBool True), (''url'', JStr ''https://my-site.vercel.app''),
                 (''deploymentId'', JUndefined), (''remainingQuota'', JNum 0)]"
proof -
  let ?e = "sampleEnv ''Tue Nov 03 2026'' 1793707260000 (Deployed None None)"
  let ?req = "sampleRequest ''my-site''"
  let ?s = "sampleStore \<lparr>remaining = 1, lastReset = ''Tue Nov 03 2026'',
                         lastDeployment = Some 1793700000000, cooldownUntil = 1793700300000\<rparr>"
  let ?g = "getQuotaInfo ?e (getClientId ?e ?req) ?s"
  let ?file = "\<lparr>filepath = ''index.html'', content = ''PGgxPkhpPC9oMT4='', isBuffer = False\<rparr>"
  have h: "httpMethod ?req = ''POST''" "name ?req = Some ''my-site''"
    "''my-site'' \<noteq> ''quota-check''" "validName ''my-site''"
    "fileData ?req = Some ''PGgxPkhpPC9oMT4=''" "''PGgxPkhpPC9oMT4='' \<noteq> []"
    "fileName ?req = Some ''page.htm''" "''page.htm'' \<noteq> []"
    by (simp_all add: sampleRequest_def validName_def)
  have g: "?g = (fst ?g, snd ?g)" by simp
  have a: "cooldownUntil (fst ?g) \<le> nowCheck ?e" "0 < remaining (fst ?g)"
    by code_simp+
  have x: "endsWith (toLowerCase ''page.htm'') ''.html'' \<or> endsWith (toLowerCase ''page.htm'') ''.htm''"
    by code_simp
  note T = html_upload_single_file [OF h g a x]
  have A: "processFiles ?e ''page.htm'' ''PGgxPkhpPC9oMT4='' = Inr [?file]"
    by (rule T [THEN conjunct1])
  have B: "handler ?e ?req ?s = submit ?e ''my-site'' (getClientId ?e ?req) (fst ?g) [?file] (snd ?g)"
    by (rule T [THEN conjunct2])
  have C: "fst (submit ?e ''my-site'' (getClientId ?e ?req) (fst ?g) [?file] (snd ?g))
     = Json 200 [(''success'', JBool True), (''url'', JStr ''https://my-site.vercel.app''),
                 (''deploymentId'', JUndefined), (''remainingQuota'', JNum 0)]"
    by code_simp
  show ?thesis by (simp only: A B C simp_thms)
qed

lemma extract_none:
  "filter (\<lambda>x. \<not> isDirectory x \<and> isSafeFile (entryName x)) es = [] \<Longrightarrow>
   extractEntries es acc = Inr acc"
  by (induction es arbitrary: acc) (auto split: if_splits)

lemma extract_single:
  assumes "filter (\<lambda>x. \<not> isDirectory x \<and> isSafeFile (entryName x)) es = [x]"
    and "getData x = Inr d"
  shows "extractEntries es acc =
     Inr (acc @ [\<lparr>filepath = entryName x, content = d, isBuffer = False\<rparr>])"
  using assms
proof (induction es arbitrary: acc)
  case Nil
  then show ?case by simp
next
  case (Cons a es)
  show ?case
  proof (cases "\<not> isDirectory a \<and> isSafeFile (entryName a)")
    case True
    with Cons.prems(1) have ax: "a = x"
      and rest: "filter (\<lambda>x. \<not> isDirectory x \<and> isSafeFile (entryName x)) es = []"
      by simp_all
    show ?thesis using True ax Cons.prems(2) extract_none [OF rest] by simp
  next
    case False
    with Cons.prems(1)
    have "filter (\<lambda>x. \<not> isDirectory x \<and> isSafeFile (entryName x)) es = [x]" by auto
    from Cons.IH [OF this Cons.prems(2)] False show ?thesis by auto
  qed
qed

lemma safe_index: "isSafeFile ''index.html''"
  by (simp add: isSafeFile_def path_extname_def path_basename_def toLowerCase_def
      lower_char_def safeExtensions_def startsWith_def)

lemma unsafe_exe: "\<not> isSafeFile ''a.exe''"
  by (simp add: isSafeFile_def path_extname_def path_basename_def toLowerCase_def
      lower_char_def safeExtensions_def)

lemma unsafe_passwd: "\<not> isSafeFile ''../../etc/passwd''"
  by (simp add: isSafeFile_def path_extname_def path_basename_def toLowerCase_def
      lower_char_def safeExtensions_def)

lemma kept_of_three:
  assumes "mset (map entryName (filter (\<lambda>x. \<not> isDirectory x) es)) =
           {#''index.html'', ''a.exe'', ''../../etc/passwd''#}"
  shows "\<exists>x. filter (\<lambda>x. \<not> isDirectory x \<and> isSafeFile (entryName x)) es = [x] \<and>
             entryName x = ''index.html'' \<and> \<not> isDirectory x \<and> x \<in> set es"
proof -
  let ?L = "filter (\<lambda>x. \<not> isDirectory x) es"
  let ?F = "filter (\<lambda>x. \<not> isDirectory x \<and> isSafeFile (entryName x)) es"
  have F: "map entryName ?F = filter isSafeFile (map entryName ?L)"
    by (simp add: filter_map comp_def)
  have "mset (map entryName ?F) = filter_mset isSafeFile (mset (map entryName ?L))"
    by (simp only: F mset_filter)
  also have "\<dots> = {#''index.html''#}"
    unfolding assms using safe_index unsafe_exe unsafe_passwd by simp
  finally have "mset (map entryName ?F) = {#''index.html''#}" .
  then have "map entryName ?F = [''index.html'']" by (simp only: mset_single_iff)
  then obtain x where x: "?F = [x]" "entryName x = ''index.html''"
    by (auto simp: map_eq_Cons_conv)
  then have "x \<in> set ?F" by simp
  then have "x \<in> set es" "\<not> isDirectory x" by auto
  with x show ?thesis by blast
qed

text \<open>
  C7. For an archive whose entries other than directories are named \<open>index.html\<close>,
  \<open>a.exe\<close> and \<open>../../etc/passwd\<close>, in any order and with any directories between them,
  the extraction yields the file \<open>index.html\<close> alone, with the data of that entry, and the
  file processing accepts the upload. The data of the two other entries is never read.
\<close>

theorem archive_keeps_only_index:
  assumes "mset (map entryName (filter (\<lambda>x. \<not> isDirectory x) zipEntries)) =
           {#''index.html'', ''a.exe'', ''../../etc/passwd''#}"
    and "\<forall>x \<in> set zipEntries. entryName x = ''index.html'' \<and> \<not> isDirectory x \<longrightarrow> getData x = Inr d"
    and "endsWith (toLowerCase fn) ''.zip''"
    and "unzip e fd = Inr zipEntries"
  shows "extractEntries zipEntries [] =
           Inr [\<lparr>filepath = ''index.html'', content = d, isBuffer = False\<rparr>]
         \<and> processFiles e fn fd =
           Inr [\<lparr>filepath = ''index.html'', content = d, isBuffer = False\<rparr>]"
proof -
  from kept_of_three [OF assms(1)] obtain x where
    x: "filter (\<lambda>x. \<not> isDirectory x \<and> isSafeFile (entryName x)) zipEntries = [x]"
       "entryName x = ''index.html''" "\<not> isDirectory x" "x \<in> set zipEntries"
    by blast
  with assms(2) have "getData x = Inr d" by blast
  from extract_single [OF x(1) this, of "[]"] x(2)
  have ex: "extractEntries zipEntries [] =
           Inr [\<lparr>filepath = ''index.html'', content = d, isBuffer = False\<rparr>]" by simp
  have "toLowerCase ''index.html'' = ''index.html''"
    by (simp add: toLowerCase_def lower_char_def)
  then show ?thesis using ex assms(3,4) by (simp add: processFiles_def)
qed

theorem archive_keeps_only_index_witness:
  "extractEntries sampleArchive [] =
     Inr [\<lparr>filepath = ''index.html'', content = ''PGgxPkhpPC9oMT4='', isBuffer = False\<rparr>]
   \<and> processFiles
       ((sampleEnv ''Tue Nov 03 2026'' 1793707260000 (Deployed None None))
          \<lparr>unzip := \<lambda>_. Inr sampleArchive\<rparr>)
       ''site.ZIP'' ''UEsDBBQAAAAIAA==''
     = Inr [\<lparr>filepath = ''index.html'', content = ''PGgxPkhpPC9oMT4='', isBuffer = False\<rparr>]"
proof -
  let ?e = "(sampleEnv ''Tue Nov 03 2026'' 1793707260000 (Deployed None None))
              \<lparr>unzip := \<lambda>_. Inr sampleArchive\<rparr>"
  have m: "mset (map entryName (filter (\<lambda>x. \<not> isDirectory x) sampleArchive)) =
           {#''index.html'', ''a.exe'', ''../../etc/passwd''#}"
    by (simp add: sampleArchive_def)
  have b: "\<forall>x \<in> set sampleArchive.
             entryName x = ''index.html'' \<and> \<not> isDirectory x \<longrightarrow> getData x = Inr ''PGgxPkhpPC9oMT4=''"
    by (simp add: sampleArchive_def)
  have z: "endsWith (toLowerCase ''site.ZIP'') ''.zip''" by code_simp
  have u: "unzip ?e ''UEsDBBQAAAAIAA=='' = Inr sampleArchive" by (simp add: sampleEnv_def)
  show ?thesis by (rule archive_keeps_only_index [OF m b z u])
qed

section \<open>The daily reset\<close>



lemma getQuotaInfo_snd:
  "snd (getQuotaInfo e c s) = cleanup (nowLookup e) (s(c \<mapsto> fst (getQuotaInfo e c s)))"
  by (simp add: getQuotaInfo_def Let_def)









section \<open>The quota-check path\<close>

text \<open>
  C9, as stated, fails. A deployment late on one day is followed, early on the next day, by
  an attempt that the provider refuses because the name is taken: the client is charged,
  \<open>lastDeployment\<close> keeps the time of the first deployment. Two quota-check requests follow
  on that second day, a second apart and more than 24 hours after the first deployment, with
  no deployment between them. The record holds 49 before them; the first reports 49 and the
  cleanup of its lookup deletes the record; the second finds no record, creates one, and
  reports 50, which is what the store holds afterwards.
\<close>

theorem quota_check_changes_remaining:
  "snd (serve
     [(sampleEnv ''Mon Nov 02 2026'' 1793660400000 (Deployed None None), sampleRequest ''my-site''),
      (sampleEnv ''Tue Nov 03 2026'' 1793667600000 (DeployError (Some ''name_already_exists'') None),
       sampleRequest ''my-site'')]
     Map.empty) sampleClient
   = Some \<lparr>remaining = 49, lastReset = ''Tue Nov 03 2026'',
            lastDeployment = Some 1793660400000, cooldownUntil = 0\<rparr>
   \<and> fst (serve
     [(sampleEnv ''Mon Nov 02 2026'' 1793660400000 (Deployed None None), sampleRequest ''my-site''),
      (sampleEnv ''Tue Nov 03 2026'' 1793667600000 (DeployError (Some ''name_already_exists'') None),
       sampleRequest ''my-site''),
      (sampleEnv ''Tue Nov 03 2026'' 1793746801000 (Deployed None None), sampleRequest ''quota-check''),
      (sampleEnv ''Tue Nov 03 2026'' 1793746802000 (Deployed None None), sampleRequest ''quota-check'')]
     Map.empty)
   = [Json 200 [(''success'', JBool True), (''url'', JStr ''https://my-site.vercel.app''),
                (''deploymentId'', JUndefined), (''remainingQuota'', JNum 49)],
      Json 400 [(''error'', JStr ''Nama sudah digunakan, coba nama lain''),
                (''remainingQuota'', JNum 49)],
      Json 200 [(''remainingQuota'', JNum 49)],
      Json 200 [(''remainingQuota'', JNum 50)]]
   \<and> snd (serve
     [(sampleEnv ''Mon Nov 02 2026'' 1793660400000 (Deployed None None), sampleRequest ''my-site''),
      (sampleEnv ''Tue Nov 03 2026'' 1793667600000 (DeployError (Some ''name_already_exists'') None),
       sampleRequest ''my-site''),
      (sampleEnv ''Tue Nov 03 2026'' 1793746801000 (Deployed None None), sampleRequest ''quota-check''),
      (sampleEnv ''Tue Nov 03 2026'' 1793746802000 (Deployed None None), sampleRequest ''quota-check'')]
     Map.empty) sampleClient
   = Some \<lparr>remaining = 50, lastReset = ''Tue Nov 03 2026'',
            lastDeployment = None, cooldownUntil = 0\<rparr>"
  by code_simp

lemma quota_check_step:
  assumes "httpMethod req = ''POST''" and "name req = Some ''quota-check''"
    and "getClientId e req = c" and "today e = d"
    and "s c = Some r \<or> (s c = None \<and> r = newQuota d)"
    and "lastReset r = d" and "\<not> expired (nowLookup e) r"
  shows "fst (handler e req s) =
           Json 200 ((''remainingQuota'', JNum (remaining r)) #
                     (if cooldownUntil r > nowCheck e then cooldownFields e r else []))"
    and "snd (handler e req s) c = Some r"
proof -
  have q: "fst (getQuotaInfo e c s) = r"
    using assms(4-6) by (auto simp: getQuotaInfo_def Let_def)
  have h: "handler e req s =
     (Json 200 ((''remainingQuota'', JNum (remaining (fst (getQuotaInfo e c s)))) #
                (if cooldownUntil (fst (getQuotaInfo e c s)) > nowCheck e
                 then cooldownFields e (fst (getQuotaInfo e c s)) else [])),
      snd (getQuotaInfo e c s))"
    using assms(1-3) by (simp add: handler_def case_prod_unfold)
  show "fst (handler e req s) =
           Json 200 ((''remainingQuota'', JNum (remaining r)) #
                     (if cooldownUntil r > nowCheck e then cooldownFields e r else []))"
    unfolding h q by simp
  show "snd (handler e req s) c = Some r"
    unfolding h using assms(7) by (simp add: getQuotaInfo_snd q cleanup_def)
qed

text \<open>
  C9, amended. Let a client have a record of today's date, or none yet (the first lookup then
  creates it). Quota-check requests of this client on this date, as many as one likes,
  each made while the cleanup does not remove the record (its \<open>lastDeployment\<close> is missing or
  at most 24 hours before the lookup), leave the record stored as it is, and each response has
  status 200 and reports its \<open>remaining\<close>.
\<close>

theorem quota_check_idempotent:
  assumes "s c = Some r \<or> (s c = None \<and> r = newQuota d)" and "lastReset r = d"
    and "reqs \<noteq> []"
    and "\<forall>x \<in> set reqs. httpMethod (snd x) = ''POST'' \<and> name (snd x) = Some ''quota-check'' \<and>
           getClientId (fst x) (snd x) = c \<and> today (fst x) = d \<and>
           \<not> expired (nowLookup (fst x)) r"
  shows "snd (serve reqs s) c = Some r \<and>
         (\<forall>resp \<in> set (fst (serve reqs s)).
            \<exists>more. resp = Json 200 ((''remainingQuota'', JNum (remaining r)) # more))"
  using assms
proof (induction reqs arbitrary: s)
  case Nil
  then show ?case by simp
next
  case (Cons a reqs)
  obtain e req where a: "a = (e, req)" by (cases a)
  from Cons.prems(4) a have hy: "httpMethod req = ''POST''" "name req = Some ''quota-check''"
    "getClientId e req = c" "today e = d" "\<not> expired (nowLookup e) r" by simp_all
  note st = quota_check_step [where s = s and c = c and r = r, OF hy(1-4) Cons.prems(1,2) hy(5)]
  show ?case
  proof (cases "reqs = []")
    case True
    then show ?thesis using a st by (simp add: case_prod_unfold)
  next
    case False
    have "snd (handler e req s) c = Some r \<or> (snd (handler e req s) c = None \<and> r = newQuota d)"
      using st(2) by simp
    from Cons.IH [of "snd (handler e req s)", OF this Cons.prems(2) False] Cons.prems(4)
    have "snd (serve reqs (snd (handler e req s))) c = Some r \<and>
         (\<forall>resp \<in> set (fst (serve reqs (snd (handler e req s)))).
            \<exists>more. resp = Json 200 ((''remainingQuota'', JNum (remaining r)) # more))"
      by simp
    then show ?thesis using a st(1) by (simp add: case_prod_unfold)
  qed
qed

theorem quota_check_idempotent_witness:
  "snd (serve [(sampleEnv ''Tue Nov 03 2026'' 1793707200000 (Deployed None None),
                sampleRequest ''quota-check''),
               (sampleEnv ''Tue Nov 03 2026'' 1793707260000 (Deployed None None),
                sampleRequest ''quota-check'')]
          (sampleStore \<lparr>remaining = 49, lastReset = ''Tue Nov 03 2026'',
                         lastDeployment = Some 1793667600000, cooldownUntil = 1793667900000\<rparr>))
       sampleClient
     = Some \<lparr>remaining = 49, lastReset = ''Tue Nov 03 2026'',
              lastDeployment = Some 1793667600000, cooldownUntil = 1793667900000\<rparr>
   \<and> fst (serve [(sampleEnv ''Tue Nov 03 2026'' 1793707200000 (Deployed None None),
                sampleRequest ''quota-check''),
               (sampleEnv ''Tue Nov 03 2026'' 1793707260000 (Deployed None None),
                sampleRequest ''quota-check'')]
          (sampleStore \<lparr>remaining = 49, lastReset = ''Tue Nov 03 2026'',
                         lastDeployment = Some 1793667600000, cooldownUntil = 1793667900000\<rparr>))
     = [Json 200 [(''remainingQuota'', JNum 49)], Json 200 [(''remainingQuota'', JNum 49)]]"
proof -
  let ?r = "\<lparr>remaining = 49, lastReset = ''Tue Nov 03 2026'',
             lastDeployment = Some 1793667600000, cooldownUntil = 1793667900000\<rparr>"
  let ?reqs = "[(sampleEnv ''Tue Nov 03 2026'' 1793707200000 (Deployed None None),
                sampleRequest ''quota-check''),
               (sampleEnv ''Tue Nov 03 2026'' 1793707260000 (Deployed None None),
                sampleRequest ''quota-check'')]"
  have h1: "sampleStore ?r sampleClient = Some ?r \<or>
            (sampleStore ?r sampleClient = None \<and> ?r = newQuota ''Tue Nov 03 2026'')"
    by (simp add: sampleStore_def)
  have h2: "lastReset ?r = ''Tue Nov 03 2026''" by simp
  have h3: "?reqs \<noteq> []" by simp
  have h4: "\<forall>x \<in> set ?reqs. httpMethod (snd x) = ''POST'' \<and> name (snd x) = Some ''quota-check'' \<and>
           getClientId (fst x) (snd x) = sampleClient \<and> today (fst x) = ''Tue Nov 03 2026'' \<and>
           \<not> expired (nowLookup (fst x)) ?r"
    by (simp add: sampleEnv_def sampleRequest_def getClientId_def js_or_def sampleClient_def
        expired_def)
  note T = quota_check_idempotent [of "sampleStore ?r" sampleClient ?r "''Tue Nov 03 2026''" ?reqs,
      OF h1 h2 h3 h4]
  have A: "snd (serve ?reqs (sampleStore ?r)) sampleClient = Some ?r"
    by (rule T [THEN conjunct1])
  have B: "fst (serve ?reqs (sampleStore ?r))
     = [Json 200 [(''remainingQuota'', JNum 49)], Json 200 [(''remainingQuota'', JNum 49)]]"
    by code_simp
  show ?thesis by (simp only: A B simp_thms)
qed

end
